theory Spec2Isabelle
  imports Complex_Main "HOL-Library.AList"
begin

section \<open>JavaScript numbers\<close>

text \<open>
  A JavaScript number is modelled as a real number extended with \<open>NaN\<close> and the two
  infinities. Rounding of IEEE doubles is not modelled: finite arithmetic is exact.
\<close>

datatype jsnum = NaN | NegInf | Num real | PosInf

text \<open>Truthiness of a number: \<open>NaN\<close> and \<open>0\<close> are falsy, everything else is truthy.\<close>

fun js_truthy :: "jsnum \<Rightarrow> bool" where
  "js_truthy NaN = False"
| "js_truthy (Num r) = (r \<noteq> 0)"
| "js_truthy NegInf = True"
| "js_truthy PosInf = True"

text \<open>The idiom \<^verbatim>\<open>x || 0\<close> on a number.\<close>

definition or_zero :: "jsnum \<Rightarrow> jsnum" where
  "or_zero x = (if js_truthy x then x else Num 0)"

fun js_neg :: "jsnum \<Rightarrow> jsnum" where
  "js_neg NaN = NaN"
| "js_neg NegInf = PosInf"
| "js_neg (Num r) = Num (- r)"
| "js_neg PosInf = NegInf"

fun js_add :: "jsnum \<Rightarrow> jsnum \<Rightarrow> jsnum" where
  "js_add NaN y = NaN"
| "js_add x NaN = NaN"
| "js_add (Num a) (Num b) = Num (a + b)"
| "js_add PosInf NegInf = NaN"
| "js_add NegInf PosInf = NaN"
| "js_add PosInf y = PosInf"
| "js_add x PosInf = PosInf"
| "js_add NegInf y = NegInf"
| "js_add x NegInf = NegInf"

definition js_sub :: "jsnum \<Rightarrow> jsnum \<Rightarrow> jsnum" where
  "js_sub x y = js_add x (js_neg y)"

text \<open>The comparison \<^verbatim>\<open>x < y\<close>; every comparison with \<open>NaN\<close> is false.\<close>

fun js_less :: "jsnum \<Rightarrow> jsnum \<Rightarrow> bool" where
  "js_less NaN y = False"
| "js_less x NaN = False"
| "js_less (Num a) (Num b) = (a < b)"
| "js_less x NegInf = False"
| "js_less NegInf y = True"
| "js_less PosInf y = False"
| "js_less x PosInf = True"

text \<open>\<^verbatim>\<open>Math.min\<close> and \<^verbatim>\<open>Math.max\<close> of two numbers: \<open>NaN\<close> if either is \<open>NaN\<close>.\<close>

definition Math_min :: "jsnum \<Rightarrow> jsnum \<Rightarrow> jsnum" where
  "Math_min x y = (if x = NaN \<or> y = NaN then NaN else if js_less y x then y else x)"

definition Math_max :: "jsnum \<Rightarrow> jsnum \<Rightarrow> jsnum" where
  "Math_max x y = (if x = NaN \<or> y = NaN then NaN else if js_less x y then y else x)"

text \<open>\<^verbatim>\<open>String.prototype.endsWith\<close>.\<close>

definition endsWith :: "string \<Rightarrow> string \<Rightarrow> bool" where
  "endsWith s suffix = (length suffix \<le> length s \<and> drop (length s - length suffix) s = suffix)"


section \<open>The software decoder and its cache\<close>

datatype error =
    FetchError string nat
  | DecodeError string
  | NetworkError
  | NotSupportedError
  | RangeError
  | TypeError string

text \<open>
  An \<^verbatim>\<open>AudioBuffer\<close>: per-channel sample arrays of a common length at a sample rate.
\<close>

record audio_buffer =
  numberOfChannels :: nat
  buf_length :: nat
  buf_sampleRate :: nat
  buf_channels :: "real list list"

definition buffer_duration :: "audio_buffer \<Rightarrow> jsnum" where
  "buffer_duration b = Num (real (buf_length b) / real (buf_sampleRate b))"

text \<open>
  The host: \<^verbatim>\<open>fetch\<close> (which rejects on a network failure, and otherwise answers with
  a status and a body) and the decode engine's \<^verbatim>\<open>decodeFile\<close>.
\<close>

record response =
  ok :: bool
  status :: nat
  body :: "nat list"

record decoded =
  channelData :: "real list list"
  samplesDecoded :: nat
  sampleRate :: nat

record host =
  fetch :: "string \<Rightarrow> error + response"
  decodeFile :: "nat list \<Rightarrow> decoded"

text \<open>
  Render nodes (\<^verbatim>\<open>AudioBufferSourceNode\<close>) live in the shared audio graph and are
  referred to by their index in \<open>nodes\<close>.
\<close>

datatype node_status = Unscheduled | Playing | Finished

record source_node =
  node_buffer :: audio_buffer
  node_loop :: bool
  node_connected :: bool
  node_status :: node_status

text \<open>
  The module's global state: the decode cache (a \<^verbatim>\<open>Map\<close>, which iterates in insertion
  order), the decoder singleton, instrumentation of the host calls made (the uris
  fetched, the uris handed to the decode engine, the number of decoder resets), and the
  shared audio context with its clock, its render nodes and the queue of their
  \<^verbatim>\<open>ended\<close> events not yet dispatched.
\<close>

record world =
  audioBufferCache :: "(string \<times> audio_buffer) list"
  decoder :: bool
  fetched :: "string list"
  decodeCalls :: "string list"
  resets :: nat
  ctx_suspended :: bool
  ctx_currentTime :: real
  nodes :: "source_node list"
  ended_queue :: "nat list"

text \<open>
  \<^verbatim>\<open>ctx.createBuffer(channels, length, rate)\<close> raises \<^verbatim>\<open>NotSupportedError\<close> when an
  argument is outside its nominal range; the zero cases are modelled.
\<close>

definition createBuffer :: "nat \<Rightarrow> nat \<Rightarrow> nat \<Rightarrow> error + audio_buffer" where
  "createBuffer n len rate =
     (if n = 0 \<or> len = 0 \<or> rate = 0 then Inl NotSupportedError
      else Inr \<lparr>numberOfChannels = n, buf_length = len, buf_sampleRate = rate,
                buf_channels = replicate n (replicate len 0)\<rparr>)"

text \<open>
  \<^verbatim>\<open>destChannel.set(source)\<close> on a typed array raises \<^verbatim>\<open>RangeError\<close> when the source is
  longer than the destination, and otherwise overwrites a prefix.
\<close>

definition typed_set :: "real list \<Rightarrow> real list \<Rightarrow> error + real list" where
  "typed_set dest source =
     (if length dest < length source then Inl RangeError
      else Inr (source @ drop (length source) dest))"

text \<open>The copy loop \<^verbatim>\<open>for (i = 0; i < channelData.length; i++)\<close>.\<close>

fun copy_channels :: "real list list \<Rightarrow> real list list \<Rightarrow> error + real list list" where
  "copy_channels [] [] = Inr []"
| "copy_channels (d # ds) (s # ss) =
     (case typed_set d s of
        Inl e \<Rightarrow> Inl e
      | Inr d' \<Rightarrow> (case copy_channels ds ss of Inl e \<Rightarrow> Inl e | Inr ds' \<Rightarrow> Inr (d' # ds')))"
| "copy_channels ds [] = Inr ds"
| "copy_channels [] (s # ss) = Inl (TypeError ''destChannel is undefined'')"

text \<open>
  Lines 141-147: the insertion into the cache. \<^verbatim>\<open>if (firstKey)\<close> is false for a missing
  key and for the empty string.
\<close>

definition cache_insert ::
  "string \<Rightarrow> audio_buffer \<Rightarrow> (string \<times> audio_buffer) list \<Rightarrow> (string \<times> audio_buffer) list" where
  "cache_insert url buf c =
     AList.update url buf
       (if length c > 100 then
          (case c of
             [] \<Rightarrow> c
           | (firstKey, v) # rest \<Rightarrow> if firstKey \<noteq> [] then AList.delete firstKey c else c)
        else c)"

text \<open>
  \<^verbatim>\<open>decodeOpusFile\<close> up to its first suspension: the cache lookup and, on a miss, the
  creation of the decoder singleton by \<^verbatim>\<open>getDecoder\<close>.
\<close>

definition decode_begin :: "string \<Rightarrow> world \<Rightarrow> audio_buffer option \<times> world" where
  "decode_begin url w =
     (case map_of (audioBufferCache w) url of
        Some b \<Rightarrow> (Some b, w)
      | None \<Rightarrow> (None, w\<lparr>decoder := True\<rparr>))"

text \<open>\<^verbatim>\<open>decodeOpusFile\<close> after the cache miss: fetch, decode, build the buffer, cache it.\<close>

definition decode_rest :: "host \<Rightarrow> string \<Rightarrow> world \<Rightarrow> (error + audio_buffer) \<times> world" where
  "decode_rest hst url w =
     (let w1 = w\<lparr>fetched := fetched w @ [url]\<rparr> in
      case fetch hst url of
        Inl e \<Rightarrow> (Inl e, w1)
      | Inr resp \<Rightarrow>
          if \<not> ok resp then (Inl (FetchError url (status resp)), w1)
          else
            let d = decodeFile hst (body resp);
                w2 = w1\<lparr>decodeCalls := decodeCalls w1 @ [url]\<rparr>
            in if samplesDecoded d = 0 then (Inl (DecodeError url), w2)
               else
                 (case createBuffer (length (channelData d)) (samplesDecoded d) (sampleRate d) of
                    Inl e \<Rightarrow> (Inl e, w2)
                  | Inr b \<Rightarrow>
                      (case copy_channels (buf_channels b) (channelData d) of
                         Inl e \<Rightarrow> (Inl e, w2)
                       | Inr chans \<Rightarrow>
                           let abuf = b\<lparr>buf_channels := chans\<rparr> in
                           (Inr abuf,
                            w2\<lparr>audioBufferCache := cache_insert url abuf (audioBufferCache w2),
                               resets := Suc (resets w2)\<rparr>))))"

text \<open>A call of \<^verbatim>\<open>decodeOpusFile\<close> that runs to completion before anything else does.\<close>

definition decodeOpusFile :: "host \<Rightarrow> string \<Rightarrow> world \<Rightarrow> (error + audio_buffer) \<times> world" where
  "decodeOpusFile hst url w =
     (case decode_begin url w of
        (Some b, w1) \<Rightarrow> (Inr b, w1)
      | (None, w1) \<Rightarrow> decode_rest hst url w1)"

text \<open>Sequential calls, one uri after the other; the results are dropped.\<close>

fun decode_all :: "host \<Rightarrow> string list \<Rightarrow> world \<Rightarrow> world" where
  "decode_all hst [] w = w"
| "decode_all hst (url # urls) w = decode_all hst urls (snd (decodeOpusFile hst url w))"


section \<open>The software handle\<close>

datatype event = Error | Ended | Loadeddata | Play | Pause

text \<open>
  The fields of \<^verbatim>\<open>PolyfillAudioElement\<close>. \<open>sourceNode\<close> refers to a render node of
  the audio graph, \<open>gainNode\<close> holds the gain node's \<^verbatim>\<open>gain.value\<close>. A handler slot
  (\<open>onerror\<close>, ...) records whether a handler is attached; a handler is opaque and does
  not call back into the handle, so invoking it is recorded in \<open>notified\<close>.
\<close>

record PolyfillAudioElement =
  p_src :: string
  p_volume :: jsnum
  p_loop :: bool
  p_paused :: bool
  p_currentTime :: jsnum
  p_duration :: jsnum
  sourceNode :: "nat option"
  gainNode :: "jsnum option"
  startTime :: jsnum
  audioBuffer :: "audio_buffer option"
  isLoading :: bool
  loadError :: "error option"
  onerror :: bool
  onended :: bool
  onloadeddata :: bool
  onplay :: bool
  onpause :: bool
  notified :: "event list"

definition new_PolyfillAudioElement :: PolyfillAudioElement where
  "new_PolyfillAudioElement =
     \<lparr>p_src = [], p_volume = Num 1, p_loop = False, p_paused = True, p_currentTime = Num 0,
      p_duration = Num 0, sourceNode = None, gainNode = Some (Num 1), startTime = Num 0,
      audioBuffer = None, isLoading = False, loadError = None, onerror = False,
      onended = False, onloadeddata = False, onplay = False, onpause = False,
      notified = []\<rparr>"

fun handler_of :: "event \<Rightarrow> PolyfillAudioElement \<Rightarrow> bool" where
  "handler_of Error h = onerror h"
| "handler_of Ended h = onended h"
| "handler_of Loadeddata h = onloadeddata h"
| "handler_of Play h = onplay h"
| "handler_of Pause h = onpause h"

text \<open>\<^verbatim>\<open>if (this.onX) this.onX(new Event(X))\<close>.\<close>

definition notify :: "event \<Rightarrow> PolyfillAudioElement \<Rightarrow> PolyfillAudioElement" where
  "notify ev h = (if handler_of ev h then h\<lparr>notified := notified h @ [ev]\<rparr> else h)"

text \<open>An operation that may raise keeps the state it reached when it raised.\<close>

datatype 'a result = Ok 'a | Threw error 'a

fun state_of :: "'a result \<Rightarrow> 'a" where
  "state_of (Ok s) = s"
| "state_of (Threw e s) = s"

text \<open>
  \<^verbatim>\<open>loadAudio\<close> suspends at \<^verbatim>\<open>await decodeOpusFile(url)\<close>. A load in flight is the
  uri its closure captured, with the buffer the cache answered at the call if it did.
\<close>

datatype load_task = LoadTask string "audio_buffer option"

definition loadAudio ::
  "string \<Rightarrow> PolyfillAudioElement \<Rightarrow> world \<Rightarrow> PolyfillAudioElement \<times> world \<times> load_task option" where
  "loadAudio url h w =
     (if isLoading h then (h, w, None)
      else (case decode_begin url w of
              (hit, w1) \<Rightarrow> (h\<lparr>isLoading := True\<rparr>, w1, Some (LoadTask url hit))))"

text \<open>The rest of \<^verbatim>\<open>loadAudio\<close>, run when the awaited decode settles.\<close>

definition loadAudio_settle ::
  "host \<Rightarrow> load_task \<Rightarrow> PolyfillAudioElement \<Rightarrow> world \<Rightarrow> PolyfillAudioElement \<times> world" where
  "loadAudio_settle hst task h w =
     (case task of LoadTask url hit \<Rightarrow>
        (case (case hit of Some b \<Rightarrow> (Inr b, w) | None \<Rightarrow> decode_rest hst url w) of
           (Inr b, w1) \<Rightarrow>
             (notify Loadeddata (h\<lparr>audioBuffer := Some b, p_duration := buffer_duration b,
                                     isLoading := False\<rparr>), w1)
         | (Inl e, w1) \<Rightarrow>
             (notify Error (h\<lparr>isLoading := False, loadError := Some e\<rparr>), w1)))"

definition set_src ::
  "string \<Rightarrow> PolyfillAudioElement \<Rightarrow> world \<Rightarrow> PolyfillAudioElement \<times> world \<times> load_task option" where
  "set_src v h w =
     (let h1 = h\<lparr>p_src := v, loadError := None, audioBuffer := None, p_duration := Num 0,
                 p_currentTime := Num 0\<rparr>
      in if v \<noteq> [] \<and> endsWith v ''.opus'' then loadAudio v h1 w else (h1, w, None))"

definition load ::
  "PolyfillAudioElement \<Rightarrow> world \<Rightarrow> PolyfillAudioElement \<times> world \<times> load_task option" where
  "load h w = (if p_src h \<noteq> [] then loadAudio (p_src h) h w else (h, w, None))"

text \<open>
  Host behaviour: \<^verbatim>\<open>gain.value\<close> is a \<^verbatim>\<open>float\<close>, and writing a non-finite number to it
  raises \<^verbatim>\<open>TypeError\<close>; the stored volume has been written by then.
\<close>

definition set_volume :: "jsnum \<Rightarrow> PolyfillAudioElement \<Rightarrow> PolyfillAudioElement result" where
  "set_volume v h =
     (let h1 = h\<lparr>p_volume := Math_max (Num 0) (Math_min (Num 1) v)\<rparr>
      in case gainNode h1 of
           None \<Rightarrow> Ok h1
         | Some g \<Rightarrow>
             (case p_volume h1 of
                Num r \<Rightarrow> Ok (h1\<lparr>gainNode := Some (Num r)\<rparr>)
              | _ \<Rightarrow> Threw (TypeError ''gain.value is non-finite'') h1))"

definition set_loop ::
  "bool \<Rightarrow> PolyfillAudioElement \<Rightarrow> world \<Rightarrow> PolyfillAudioElement \<times> world" where
  "set_loop v h w =
     (h\<lparr>p_loop := v\<rparr>,
      case sourceNode h of
        None \<Rightarrow> w
      | Some n \<Rightarrow> w\<lparr>nodes := (nodes w)[n := (nodes w ! n)\<lparr>node_loop := v\<rparr>]\<rparr>)"

definition get_currentTime :: "PolyfillAudioElement \<Rightarrow> world \<Rightarrow> jsnum" where
  "get_currentTime h w =
     (if \<not> p_paused h \<and> js_less (Num 0) (startTime h)
      then js_sub (Num (ctx_currentTime w)) (startTime h)
      else p_currentTime h)"

text \<open>
  The body of the \<^verbatim>\<open>try\<close> in \<^verbatim>\<open>stop\<close>: \<^verbatim>\<open>sourceNode.stop(); sourceNode.disconnect()\<close>.
  Host behaviour (Web Audio): \<^verbatim>\<open>stop()\<close> on a node never started raises, which the
  \<^verbatim>\<open>catch\<close> swallows before \<^verbatim>\<open>disconnect()\<close> runs; a node that stops playing, whether
  its buffer is exhausted or \<^verbatim>\<open>stop()\<close> is called, has an \<^verbatim>\<open>ended\<close> event queued for it.
\<close>

definition node_stop_disconnect :: "nat \<Rightarrow> world \<Rightarrow> world" where
  "node_stop_disconnect n w =
     (if n < length (nodes w) then
        (case node_status (nodes w ! n) of
           Unscheduled \<Rightarrow> w
         | Playing \<Rightarrow>
             w\<lparr>nodes := (nodes w)[n := (nodes w ! n)\<lparr>node_connected := False,
                                                     node_status := Finished\<rparr>],
               ended_queue := ended_queue w @ [n]\<rparr>
         | Finished \<Rightarrow>
             w\<lparr>nodes := (nodes w)[n := (nodes w ! n)\<lparr>node_connected := False\<rparr>]\<rparr>)
      else w)"

definition stop :: "PolyfillAudioElement \<Rightarrow> world \<Rightarrow> PolyfillAudioElement \<times> world" where
  "stop h w =
     (case sourceNode h of
        None \<Rightarrow> (h, w)
      | Some n \<Rightarrow> (h\<lparr>sourceNode := None\<rparr>, node_stop_disconnect n w))"

text \<open>
  Host behaviour: \<^verbatim>\<open>start(0, offset)\<close> raises \<^verbatim>\<open>RangeError\<close> for a negative offset and
  \<^verbatim>\<open>TypeError\<close> for a non-finite one.
\<close>

definition start_error :: "jsnum \<Rightarrow> error option" where
  "start_error offset =
     (case offset of
        Num r \<Rightarrow> if r < 0 then Some RangeError else None
      | _ \<Rightarrow> Some (TypeError ''offset is non-finite''))"

definition playFromOffset ::
  "jsnum \<Rightarrow> PolyfillAudioElement \<Rightarrow> world \<Rightarrow> (PolyfillAudioElement \<times> world) result" where
  "playFromOffset offset h w =
     (case audioBuffer h of
        None \<Rightarrow> Ok (h, w)
      | Some b \<Rightarrow>
          (case gainNode h of
             None \<Rightarrow> Ok (h, w)
           | Some g \<Rightarrow>
               let n = length (nodes w);
                   node = \<lparr>node_buffer = b, node_loop = p_loop h, node_connected = True,
                           node_status = Unscheduled\<rparr>;
                   h1 = h\<lparr>sourceNode := Some n,
                          startTime := js_sub (Num (ctx_currentTime w)) offset\<rparr>
               in (case start_error offset of
                     Some e \<Rightarrow> Threw e (h1, w\<lparr>nodes := nodes w @ [node]\<rparr>)
                   | None \<Rightarrow>
                       Ok (h1\<lparr>p_paused := False\<rparr>,
                           w\<lparr>nodes := nodes w @ [node\<lparr>node_status := Playing\<rparr>]\<rparr>))))"

text \<open>The closure assigned to \<^verbatim>\<open>sourceNode.onended\<close> in \<^verbatim>\<open>playFromOffset\<close>.\<close>

definition sourceNode_onended :: "PolyfillAudioElement \<Rightarrow> PolyfillAudioElement" where
  "sourceNode_onended h =
     (if \<not> p_loop h then notify Ended (h\<lparr>p_paused := True, p_currentTime := Num 0\<rparr>) else h)"

text \<open>
  \<^verbatim>\<open>play\<close> is asynchronous: it resumes the audio context and polls until no load is in
  flight. \<open>Pending\<close> is a call still polling; otherwise its body has run.
\<close>

datatype play_outcome =
    Pending world
  | Returned PolyfillAudioElement world
  | Rejected error PolyfillAudioElement world

definition play :: "PolyfillAudioElement \<Rightarrow> world \<Rightarrow> play_outcome" where
  "play h w0 =
     (let w = w0\<lparr>ctx_suspended := False\<rparr> in
      if isLoading h then Pending w
      else if audioBuffer h = None then Returned (notify Error h) w
      else (case stop h w of
              (h1, w1) \<Rightarrow>
                (case playFromOffset (p_currentTime h1) h1 w1 of
                   Threw e (h2, w2) \<Rightarrow> Rejected e h2 w2
                 | Ok (h2, w2) \<Rightarrow> Returned (notify Play h2) w2)))"

text \<open>The handle as a call of \<^verbatim>\<open>play\<close> left it, once the call is over.\<close>

fun played :: "play_outcome \<Rightarrow> PolyfillAudioElement option" where
  "played (Pending w) = None"
| "played (Returned h w) = Some h"
| "played (Rejected e h w) = Some h"

definition pause :: "PolyfillAudioElement \<Rightarrow> world \<Rightarrow> PolyfillAudioElement \<times> world" where
  "pause h w =
     (if sourceNode h \<noteq> None \<and> \<not> p_paused h then
        (case stop (h\<lparr>p_currentTime := get_currentTime h w\<rparr>) w of
           (h1, w1) \<Rightarrow> (notify Pause (h1\<lparr>p_paused := True\<rparr>), w1))
      else (h, w))"

definition set_currentTime ::
  "jsnum \<Rightarrow> PolyfillAudioElement \<Rightarrow> world \<Rightarrow> (PolyfillAudioElement \<times> world) result" where
  "set_currentTime v h w =
     (let h1 = h\<lparr>p_currentTime := v\<rparr> in
      if \<not> p_paused h1 \<and> audioBuffer h1 \<noteq> None then
        (case stop h1 w of (h2, w2) \<Rightarrow> playFromOffset v h2 w2)
      else Ok (h1, w))"

text \<open>
  Host steps on the audio graph. A playing node that does not loop reaches the end of its
  buffer; the host then dispatches the queued \<^verbatim>\<open>ended\<close> event, which runs the closure
  of the handle that created the node.
\<close>

definition buffer_end :: "nat \<Rightarrow> world \<Rightarrow> world option" where
  "buffer_end n w =
     (if n < length (nodes w) \<and> node_status (nodes w ! n) = Playing \<and> \<not> node_loop (nodes w ! n)
      then Some (w\<lparr>nodes := (nodes w)[n := (nodes w ! n)\<lparr>node_status := Finished\<rparr>],
                   ended_queue := ended_queue w @ [n]\<rparr>)
      else None)"

definition dispatch_ended ::
  "PolyfillAudioElement \<Rightarrow> world \<Rightarrow> (PolyfillAudioElement \<times> world) option" where
  "dispatch_ended h w =
     (case ended_queue w of
        [] \<Rightarrow> None
      | n # q \<Rightarrow> Some (sourceNode_onended h, w\<lparr>ended_queue := q\<rparr>))"


section \<open>Native handles and the channel router\<close>

text \<open>
  The closure of a readiness callback of \<^verbatim>\<open>handleRMC\<close> captures \<open>totime\<close> and
  \<open>loadStartTime\<close> (and the channel, which is where the closure is stored).
\<close>

record rmc_closure =
  totime :: jsnum
  loadStartTime :: real

datatype native_call = NPause | NPlay | NSetCurrentTime jsnum

text \<open>
  An \<^verbatim>\<open>HTMLAudioElement\<close> belongs to the host. The model keeps the attributes the
  router reads (the host keeps the volume of a native element a finite number), the
  \<^verbatim>\<open>loadedmetadata\<close> listeners registered on it, and the log of the calls and writes it
  received.
\<close>

record HTMLAudioElement =
  n_src :: string
  n_volume :: real
  n_loop :: bool
  n_listeners :: "rmc_closure list"
  n_calls :: "native_call list"

text \<open>
  \<^verbatim>\<open>AudioElement = HTMLAudioElement | PolyfillAudioElement\<close>; the \<^verbatim>\<open>Proxy\<close> that
  \<^verbatim>\<open>wrapAudioElement\<close> returns is a third shape, holding its target and the companion
  software handle.
\<close>

datatype AudioElement =
    Native HTMLAudioElement
  | Facade HTMLAudioElement PolyfillAudioElement
  | Software PolyfillAudioElement

text \<open>
  \<open>needsPolyfill\<close> is the memoised answer of \<^verbatim>\<open>needsOpusPolyfill()\<close>. The volume copied
  from the native element is finite, so the write to the software handle does not raise.
\<close>

definition wrapAudioElement :: "bool \<Rightarrow> HTMLAudioElement \<Rightarrow> world \<Rightarrow> AudioElement \<times> world" where
  "wrapAudioElement needsPolyfill nativeElement w =
     (if \<not> needsPolyfill then (Native nativeElement, w)
      else (case set_loop (n_loop nativeElement)
                   (state_of (set_volume (Num (n_volume nativeElement)) new_PolyfillAudioElement)) w of
              (polyfillElement, w1) \<Rightarrow> (Facade nativeElement polyfillElement, w1)))"

text \<open>The routing test of the proxy's \<^verbatim>\<open>get\<close> trap.\<close>

definition isOpus :: "HTMLAudioElement \<Rightarrow> PolyfillAudioElement \<Rightarrow> bool" where
  "isOpus target polyfillElement =
     endsWith (if n_src target \<noteq> [] then n_src target else p_src polyfillElement) ''.opus''"

text \<open>
  \<^verbatim>\<open>music instanceof HTMLAudioElement\<close>. The proxy defines no \<^verbatim>\<open>getPrototypeOf\<close> trap,
  so the test walks the prototype chain of its target.
\<close>

fun instanceof_HTMLAudioElement :: "AudioElement \<Rightarrow> bool" where
  "instanceof_HTMLAudioElement (Native n) = True"
| "instanceof_HTMLAudioElement (Facade n p) = True"
| "instanceof_HTMLAudioElement (Software p) = False"

definition native_call :: "native_call \<Rightarrow> HTMLAudioElement \<Rightarrow> HTMLAudioElement" where
  "native_call c n = n\<lparr>n_calls := n_calls n @ [c]\<rparr>"

fun el_pause :: "AudioElement \<Rightarrow> world \<Rightarrow> AudioElement \<times> world" where
  "el_pause (Native n) w = (Native (native_call NPause n), w)"
| "el_pause (Facade n p) w =
     (if isOpus n p then (case pause p w of (p1, w1) \<Rightarrow> (Facade n p1, w1))
      else (Facade (native_call NPause n) p, w))"
| "el_pause (Software p) w = (case pause p w of (p1, w1) \<Rightarrow> (Software p1, w1))"

text \<open>
  \<^verbatim>\<open>music.addEventListener("loadedmetadata", onLoaded, false)\<close>. The software handle has
  no such member: through the proxy the \<^verbatim>\<open>get\<close> trap then yields \<^verbatim>\<open>undefined\<close>, and
  calling it raises \<^verbatim>\<open>TypeError\<close>.
\<close>

fun el_addEventListener :: "rmc_closure \<Rightarrow> AudioElement \<Rightarrow> error + AudioElement" where
  "el_addEventListener cl (Native n) = Inr (Native (n\<lparr>n_listeners := n_listeners n @ [cl]\<rparr>))"
| "el_addEventListener cl (Facade n p) =
     (if isOpus n p then Inl (TypeError ''music.addEventListener is not a function'')
      else Inr (Facade (n\<lparr>n_listeners := n_listeners n @ [cl]\<rparr>) p))"
| "el_addEventListener cl (Software p) =
     Inl (TypeError ''music.addEventListener is not a function'')"

fun el_removeEventListener :: "rmc_closure \<Rightarrow> AudioElement \<Rightarrow> error + AudioElement" where
  "el_removeEventListener cl (Native n) =
     Inr (Native (n\<lparr>n_listeners := remove1 cl (n_listeners n)\<rparr>))"
| "el_removeEventListener cl (Facade n p) =
     (if isOpus n p then Inl (TypeError ''music.removeEventListener is not a function'')
      else Inr (Facade (n\<lparr>n_listeners := remove1 cl (n_listeners n)\<rparr>) p))"
| "el_removeEventListener cl (Software p) =
     Inl (TypeError ''music.removeEventListener is not a function'')"

text \<open>
  Host behaviour: the \<^verbatim>\<open>currentTime\<close> of a native element is a \<^verbatim>\<open>double\<close>, and writing
  a non-finite number to it raises \<^verbatim>\<open>TypeError\<close>.
\<close>

definition native_set_currentTime :: "jsnum \<Rightarrow> HTMLAudioElement \<Rightarrow> error + HTMLAudioElement" where
  "native_set_currentTime v n =
     (case v of
        Num r \<Rightarrow> Inr (native_call (NSetCurrentTime v) n)
      | _ \<Rightarrow> Inl (TypeError ''currentTime is non-finite''))"

text \<open>
  \<^verbatim>\<open>music.currentTime = v\<close>. The proxy's \<^verbatim>\<open>set\<close> trap writes the software handle first
  and then its target.
\<close>

fun el_set_currentTime :: "jsnum \<Rightarrow> AudioElement \<Rightarrow> world \<Rightarrow> (AudioElement \<times> world) result" where
  "el_set_currentTime v (Native n) w =
     (case native_set_currentTime v n of
        Inl e \<Rightarrow> Threw e (Native n, w)
      | Inr n1 \<Rightarrow> Ok (Native n1, w))"
| "el_set_currentTime v (Facade n p) w =
     (case set_currentTime v p w of
        Threw e (p1, w1) \<Rightarrow> Threw e (Facade n p1, w1)
      | Ok (p1, w1) \<Rightarrow>
          (case native_set_currentTime v n of
             Inl e \<Rightarrow> Threw e (Facade n p1, w1)
           | Inr n1 \<Rightarrow> Ok (Facade n1 p1, w1)))"
| "el_set_currentTime v (Software p) w =
     (case set_currentTime v p w of
        Threw e (p1, w1) \<Rightarrow> Threw e (Software p1, w1)
      | Ok (p1, w1) \<Rightarrow> Ok (Software p1, w1))"

text \<open>
  \<^verbatim>\<open>music.play()\<close>: on a native handle a call of the host's \<^verbatim>\<open>play\<close>; on a software
  handle the start of an asynchronous \<^verbatim>\<open>play\<close>, whose body runs later (\<open>True\<close>).
\<close>

fun el_play :: "AudioElement \<Rightarrow> AudioElement \<times> bool" where
  "el_play (Native n) = (Native (native_call NPlay n), False)"
| "el_play (Facade n p) =
     (if isOpus n p then (Facade n p, True) else (Facade (native_call NPlay n) p, False))"
| "el_play (Software p) = (Software p, True)"


section \<open>The remote offset command\<close>

text \<open>
  The state \<^verbatim>\<open>handleRMC\<close> works on: the music pool \<^verbatim>\<open>client.viewport.music\<close>, the
  timers set with \<^verbatim>\<open>setTimeout\<close> (delay in milliseconds, channel, closure), the channels
  whose software handle has a \<^verbatim>\<open>play()\<close> in flight, and the module's global state.
\<close>

record viewport =
  music :: "AudioElement list"
  timers :: "(nat \<times> nat \<times> rmc_closure) list"
  plays :: "nat list"
  vworld :: world

text \<open>
  \<^verbatim>\<open>music[channel]\<close> for a number: an element only at an integral index within the
  array, \<^verbatim>\<open>undefined\<close> otherwise.
\<close>

definition array_index :: "'a list \<Rightarrow> jsnum \<Rightarrow> nat option" where
  "array_index xs k =
     (case k of
        Num r \<Rightarrow>
          if real_of_int \<lfloor>r\<rfloor> = r \<and> 0 \<le> r \<and> nat \<lfloor>r\<rfloor> < length xs then Some (nat \<lfloor>r\<rfloor>) else None
      | _ \<Rightarrow> None)"

text \<open>
  \<open>chanArg\<close> is \<^verbatim>\<open>Number(args[2])\<close>, \<open>offArg\<close> is \<^verbatim>\<open>parseFloat(args[1])\<close> and \<open>nowMs\<close> is
  \<^verbatim>\<open>new Date().getTime()\<close> when the command runs.
\<close>

definition handleRMC :: "jsnum \<Rightarrow> jsnum \<Rightarrow> int \<Rightarrow> viewport \<Rightarrow> viewport result" where
  "handleRMC chanArg offArg nowMs vp =
     (let channel = or_zero chanArg in
      case array_index (music vp) channel of
        None \<Rightarrow> Ok vp
      | Some i \<Rightarrow>
          (case el_pause (music vp ! i) (vworld vp) of
             (m1, w1) \<Rightarrow>
               let cl = \<lparr>totime = or_zero offArg, loadStartTime = real_of_int nowMs / 1000\<rparr>
               in if instanceof_HTMLAudioElement m1 then
                    (case el_addEventListener cl m1 of
                       Inl e \<Rightarrow> Threw e (vp\<lparr>music := (music vp)[i := m1], vworld := w1\<rparr>)
                     | Inr m2 \<Rightarrow> Ok (vp\<lparr>music := (music vp)[i := m2], vworld := w1\<rparr>))
                  else Ok (vp\<lparr>music := (music vp)[i := m1], vworld := w1,
                              timers := timers vp @ [(100, i, cl)]\<rparr>)))"

text \<open>
  The two statements both callbacks share: \<^verbatim>\<open>music.currentTime = totime + drift;
  music.play()\<close>, run at wall-clock time \<open>nowMs\<close> on channel \<open>i\<close>.
\<close>

definition seek_and_play :: "int \<Rightarrow> rmc_closure \<Rightarrow> nat \<Rightarrow> viewport \<Rightarrow> viewport result" where
  "seek_and_play nowMs cl i vp =
     (let drift = real_of_int nowMs / 1000 - loadStartTime cl in
      case el_set_currentTime (js_add (totime cl) (Num drift)) (music vp ! i) (vworld vp) of
        Threw e (m1, w1) \<Rightarrow> Threw e (vp\<lparr>music := (music vp)[i := m1], vworld := w1\<rparr>)
      | Ok (m1, w1) \<Rightarrow>
          (case el_play m1 of
             (m2, async) \<Rightarrow>
               Ok (vp\<lparr>music := (music vp)[i := m2], vworld := w1,
                      plays := (if async then plays vp @ [i] else plays vp)\<rparr>)))"

text \<open>The listener \<^verbatim>\<open>onLoaded\<close>.\<close>

definition onLoaded :: "int \<Rightarrow> rmc_closure \<Rightarrow> nat \<Rightarrow> viewport \<Rightarrow> viewport result" where
  "onLoaded nowMs cl i vp =
     (case seek_and_play nowMs cl i vp of
        Threw e vp1 \<Rightarrow> Threw e vp1
      | Ok vp1 \<Rightarrow>
          (case el_removeEventListener cl (music vp1 ! i) of
             Inl e \<Rightarrow> Threw e vp1
           | Inr m \<Rightarrow> Ok (vp1\<lparr>music := (music vp1)[i := m]\<rparr>)))"

text \<open>
  The host dispatches \<^verbatim>\<open>loadedmetadata\<close> on the native element of channel \<open>i\<close>: every
  listener registered at that moment runs, in order of registration; one that raises
  does not keep the others from running.
\<close>

fun listeners_of :: "AudioElement \<Rightarrow> rmc_closure list" where
  "listeners_of (Native n) = n_listeners n"
| "listeners_of (Facade n p) = n_listeners n"
| "listeners_of (Software p) = []"

definition fire_loadedmetadata :: "int \<Rightarrow> nat \<Rightarrow> viewport \<Rightarrow> viewport" where
  "fire_loadedmetadata nowMs i vp =
     fold (\<lambda>cl v. state_of (onLoaded nowMs cl i v)) (listeners_of (music vp ! i)) vp"

text \<open>The host runs the oldest timer: the callback given to \<^verbatim>\<open>setTimeout\<close>.\<close>

definition fire_timer :: "int \<Rightarrow> viewport \<Rightarrow> (nat \<times> viewport result) option" where
  "fire_timer nowMs vp =
     (case timers vp of
        [] \<Rightarrow> None
      | (delay, i, cl) # ts \<Rightarrow> Some (delay, seek_and_play nowMs cl i (vp\<lparr>timers := ts\<rparr>)))"


section \<open>The specification's clamp\<close>

text \<open>
  \<open>clamp(v, lo, hi)\<close> in the words of the specification: \<open>v\<close> itself when it lies
  within the interval, \<open>lo\<close> when it is below, \<open>hi\<close> when it is above.
\<close>

definition clamp :: "real \<Rightarrow> real \<Rightarrow> real \<Rightarrow> real" where
  "clamp v lo hi = (if v < lo then lo else if hi < v then hi else v)"


section \<open>Concrete hosts and states\<close>

text \<open>
  The module as loaded: empty cache, no decoder yet, a suspended audio context whose
  clock reads 10 seconds.
\<close>

definition fresh_world :: world where
  "fresh_world =
     \<lparr>audioBufferCache = [], decoder = False, fetched = [], decodeCalls = [], resets = 0,
      ctx_suspended = True, ctx_currentTime = 10, nodes = [], ended_queue = []\<rparr>"

text \<open>A host that serves every uri and decodes every file to two mono samples.\<close>

definition demo_host :: host where
  "demo_host =
     \<lparr>fetch = (\<lambda>url. Inr \<lparr>ok = True, status = 200, body = [79, 103, 103, 83]\<rparr>),
      decodeFile = (\<lambda>bytes. \<lparr>channelData = [[0, 0]], samplesDecoded = 2, sampleRate = 48000\<rparr>)\<rparr>"

definition demo_buffer :: audio_buffer where
  "demo_buffer =
     \<lparr>numberOfChannels = 1, buf_length = 2, buf_sampleRate = 48000, buf_channels = [[0, 0]]\<rparr>"

text \<open>A host whose decode engine produces no frames.\<close>

definition mute_host :: host where
  "mute_host =
     \<lparr>fetch = (\<lambda>url. Inr \<lparr>ok = True, status = 200, body = []\<rparr>),
      decodeFile = (\<lambda>bytes. \<lparr>channelData = [], samplesDecoded = 0, sampleRate = 48000\<rparr>)\<rparr>"

text \<open>
  A host that serves a decodable file for \<open>a.opus\<close> and an empty file, which decodes
  to no frames, for every other uri.
\<close>

definition one_track_host :: host where
  "one_track_host =
     \<lparr>fetch = (\<lambda>url. Inr \<lparr>ok = True, status = 200,
                            body = (if url = ''a.opus'' then [79, 103, 103, 83] else [])\<rparr>),
      decodeFile = (\<lambda>bytes. if bytes = []
                             then \<lparr>channelData = [], samplesDecoded = 0, sampleRate = 48000\<rparr>
                             else \<lparr>channelData = [[0, 0]], samplesDecoded = 2,
                                   sampleRate = 48000\<rparr>)\<rparr>"

text \<open>
  A handle with an error handler is given the source \<open>a.opus\<close> and, while that load is
  in flight, the source \<open>b.opus\<close>; the load settles; \<^verbatim>\<open>load()\<close> is called, and that load
  settles too.
\<close>

definition reloaded :: "PolyfillAudioElement \<times> world" where
  "reloaded =
     (case set_src ''a.opus'' (new_PolyfillAudioElement\<lparr>onerror := True\<rparr>) fresh_world of
        (h1, w1, t1) \<Rightarrow>
          (case set_src ''b.opus'' h1 w1 of
             (h2, w2, t2) \<Rightarrow>
               (case t1 of
                  None \<Rightarrow> (h2, w2)
                | Some task1 \<Rightarrow>
                    (case loadAudio_settle one_track_host task1 h2 w2 of
                       (h3, w3) \<Rightarrow>
                         (case load h3 w3 of
                            (h4, w4, t4) \<Rightarrow>
                              (case t4 of
                                 None \<Rightarrow> (h4, w4)
                               | Some task2 \<Rightarrow> loadAudio_settle one_track_host task2 h4 w4))))))"

text \<open>Pairwise distinct uris.\<close>

definition uri_of :: "nat \<Rightarrow> string" where
  "uri_of n = ''track'' @ replicate n CHR ''x'' @ ''.opus''"

text \<open>A software handle that has loaded ten seconds of audio and listens for \<^verbatim>\<open>ended\<close>.\<close>

definition long_buffer :: audio_buffer where
  "long_buffer =
     \<lparr>numberOfChannels = 1, buf_length = 480000, buf_sampleRate = 48000,
      buf_channels = [replicate 480000 0]\<rparr>"

definition long_host :: host where
  "long_host =
     \<lparr>fetch = (\<lambda>url. Inr \<lparr>ok = True, status = 200, body = [79, 103, 103, 83]\<rparr>),
      decodeFile = (\<lambda>bytes. \<lparr>channelData = [replicate 480000 0], samplesDecoded = 480000,
                              sampleRate = 48000\<rparr>)\<rparr>"

definition ready_handle :: PolyfillAudioElement where
  "ready_handle =
     new_PolyfillAudioElement\<lparr>p_src := ''song.opus'', audioBuffer := Some long_buffer,
                              p_duration := Num 10, onended := True\<rparr>"

text \<open>\<open>k\<close> calls of \<^verbatim>\<open>play()\<close>, each awaited before the next.\<close>

fun play_repeatedly ::
  "nat \<Rightarrow> PolyfillAudioElement \<Rightarrow> world \<Rightarrow> (PolyfillAudioElement \<times> world) option" where
  "play_repeatedly 0 h w = Some (h, w)"
| "play_repeatedly (Suc k) h w =
     (case play h w of Returned h1 w1 \<Rightarrow> play_repeatedly k h1 w1 | _ \<Rightarrow> None)"

text \<open>Native channel elements and a music pool of one channel.\<close>

definition native_channel :: HTMLAudioElement where
  "native_channel =
     \<lparr>n_src = ''https://host/music/song.mp3'', n_volume = 1 / 2, n_loop = False,
      n_listeners = [], n_calls = []\<rparr>"

definition opus_channel :: HTMLAudioElement where
  "opus_channel =
     \<lparr>n_src = ''https://host/music/song.opus'', n_volume = 1 / 2, n_loop = False,
      n_listeners = [], n_calls = []\<rparr>"

definition pool_of :: "AudioElement \<Rightarrow> viewport" where
  "pool_of m = \<lparr>music = [m], timers = [], plays = [], vworld = fresh_world\<rparr>"

text \<open>
  A music pool on a host without native Opus support: its one channel is the facade, the
  source is an Opus file, and the software handle has been playing it for two seconds.
\<close>

definition playing_opus_pool :: viewport where
  "playing_opus_pool =
     (case play ready_handle fresh_world of
        Returned h w \<Rightarrow>
          \<lparr>music = [Facade opus_channel h], timers = [], plays = [],
           vworld = w\<lparr>ctx_currentTime := 12\<rparr>\<rparr>
      | _ \<Rightarrow> pool_of (Facade opus_channel ready_handle))"


section \<open>Properties of the decode cache\<close>

lemma update_fresh: "k \<notin> fst ` set al \<Longrightarrow> AList.update k v al = al @ [(k, v)]"
  by (induction al) auto

lemma cache_insert_hit: "map_of (cache_insert url b c) url = Some b"
  by (simp add: cache_insert_def update_conv')

lemma cache_insert_append:
  assumes "url \<notin> fst ` set c" and "length c \<le> 100"
  shows "cache_insert url b c = c @ [(url, b)]"
  using assms by (simp add: cache_insert_def update_fresh)

text \<open>
  With 101 entries in the cache, a new uri evicts the oldest entry, provided its key is
  not the empty string.
\<close>

lemma cache_insert_evicts_oldest:
  assumes "length ((k, v) # c) > 100" and "k \<noteq> []" and "distinct (map fst ((k, v) # c))"
    and "url \<notin> fst ` set ((k, v) # c)"
  shows "cache_insert url b ((k, v) # c) = c @ [(url, b)]"
proof -
  have "k \<notin> fst ` set c" using assms(3) by simp
  then have "AList.delete k ((k, v) # c) = c" by (simp add: delete_id)
  moreover have "url \<notin> fst ` set c" using assms(4) by simp
  ultimately show ?thesis using assms(1,2) by (simp add: cache_insert_def update_fresh)
qed

lemma demo_decode_rest:
  "decode_rest demo_host url w =
     (Inr demo_buffer,
      w\<lparr>fetched := fetched w @ [url], decodeCalls := decodeCalls w @ [url],
        audioBufferCache := cache_insert url demo_buffer (audioBufferCache w),
        resets := Suc (resets w)\<rparr>)"
  by (simp add: decode_rest_def demo_host_def demo_buffer_def createBuffer_def typed_set_def
      Let_def numeral_2_eq_2)

lemma demo_decode_miss:
  assumes "url \<notin> fst ` set (audioBufferCache w)" and "length (audioBufferCache w) \<le> 100"
  shows "audioBufferCache (snd (decodeOpusFile demo_host url w)) =
         audioBufferCache w @ [(url, demo_buffer)]"
proof -
  from assms(1) have "map_of (audioBufferCache w) url = None"
    by (simp add: map_of_eq_None_iff)
  then show ?thesis using assms
    by (simp add: decodeOpusFile_def decode_begin_def demo_decode_rest cache_insert_append)
qed

lemma demo_decode_all:
  assumes "distinct urls" and "set urls \<inter> fst ` set (audioBufferCache w) = {}"
    and "length (audioBufferCache w) + length urls \<le> 101"
  shows "audioBufferCache (decode_all demo_host urls w) =
         audioBufferCache w @ map (\<lambda>u. (u, demo_buffer)) urls"
  using assms
proof (induction urls arbitrary: w)
  case Nil
  then show ?case by simp
next
  case (Cons u us)
  let ?w1 = "snd (decodeOpusFile demo_host u w)"
  have c1: "audioBufferCache ?w1 = audioBufferCache w @ [(u, demo_buffer)]"
    using Cons.prems by (intro demo_decode_miss) auto
  have "audioBufferCache (decode_all demo_host us ?w1) =
        audioBufferCache ?w1 @ map (\<lambda>u. (u, demo_buffer)) us"
    using Cons.prems c1 by (intro Cons.IH) auto
  with c1 show ?case by simp
qed

text \<open>
  C1 (the decode cache never holds more than 100 entries; the 101st distinct uri evicts
  the first-inserted key). The guard of the eviction is \<^verbatim>\<open>size > 100\<close>, tested before
  the insertion: decoding 101 distinct uris one after the other, starting from the empty
  cache, leaves 101 entries in the cache, and the first-inserted uri is still retrievable.
\<close>

theorem cache_holds_101_entries:
  "length (audioBufferCache (decode_all demo_host (map uri_of [0..<101]) fresh_world)) = 101
   \<and> map_of (audioBufferCache (decode_all demo_host (map uri_of [0..<101]) fresh_world)) (uri_of 0)
       = Some demo_buffer"
proof -
  have d: "distinct (map uri_of [0..<101])"
    by (simp add: distinct_map inj_on_def uri_of_def)
  have "audioBufferCache (decode_all demo_host (map uri_of [0..<101]) fresh_world) =
        map (\<lambda>u. (u, demo_buffer)) (map uri_of [0..<101])"
    using demo_decode_all [OF d, of fresh_world] by (simp add: fresh_world_def)
  moreover have
    "map_of (map (\<lambda>u. (u, demo_buffer)) (map uri_of [0..<101])) (uri_of 0) = Some demo_buffer"
    by (rule map_of_is_SomeI) (auto simp: distinct_map comp_def inj_on_def uri_of_def)
  ultimately show ?thesis by simp
qed

text \<open>
  C8 (a second sequential decode of a uri is a cache hit). If a call of
  \<^verbatim>\<open>decodeOpusFile\<close> has returned a buffer, the next call for the same uri returns that
  buffer and leaves the whole global state as it was: nothing is fetched, the decode
  engine is not invoked, the cache is not touched.
\<close>

theorem decode_twice_hits_cache:
  assumes "decodeOpusFile hst url w = (Inr b, w1)"
  shows "decodeOpusFile hst url w1 = (Inr b, w1) \<and>
         fetched (snd (decodeOpusFile hst url w1)) = fetched w1 \<and>
         decodeCalls (snd (decodeOpusFile hst url w1)) = decodeCalls w1"
proof -
  have "decodeOpusFile hst url w1 = (Inr b, w1)"
  proof (cases "map_of (audioBufferCache w) url")
    case (Some c)
    with assms show ?thesis by (auto simp: decodeOpusFile_def decode_begin_def)
  next
    case None
    with assms have "decode_rest hst url (w\<lparr>decoder := True\<rparr>) = (Inr b, w1)"
      by (simp add: decodeOpusFile_def decode_begin_def)
    then have "map_of (audioBufferCache w1) url = Some b"
      by (auto simp: decode_rest_def Let_def cache_insert_hit split: sum.splits if_splits)
    then show ?thesis by (simp add: decodeOpusFile_def decode_begin_def)
  qed
  then show ?thesis by simp
qed

theorem decode_twice_hits_cache_witness:
  "decodeOpusFile demo_host ''a.opus'' fresh_world =
     (Inr demo_buffer, snd (decodeOpusFile demo_host ''a.opus'' fresh_world)) \<and>
   decodeOpusFile demo_host ''a.opus'' (snd (decodeOpusFile demo_host ''a.opus'' fresh_world)) =
     (Inr demo_buffer, snd (decodeOpusFile demo_host ''a.opus'' fresh_world)) \<and>
   decodeCalls (snd (decodeOpusFile demo_host ''a.opus''
                  (snd (decodeOpusFile demo_host ''a.opus'' fresh_world)))) = [''a.opus'']"
proof -
  have h: "decodeOpusFile demo_host ''a.opus'' fresh_world =
             (Inr demo_buffer, snd (decodeOpusFile demo_host ''a.opus'' fresh_world))"
    by (simp add: decodeOpusFile_def decode_begin_def demo_decode_rest fresh_world_def)
  have c: "decodeCalls (snd (decodeOpusFile demo_host ''a.opus'' fresh_world)) = [''a.opus'']"
    by (simp add: decodeOpusFile_def decode_begin_def demo_decode_rest fresh_world_def)
  from decode_twice_hits_cache [OF h] h c show ?thesis by simp
qed


section \<open>Properties of the software handle\<close>

lemma endsWith_nonempty: "endsWith v ''.opus'' \<Longrightarrow> v \<noteq> []"
  by (auto simp: endsWith_def)

lemma decode_rest_graph:
  "decode_rest hst url w = (r, w2) \<Longrightarrow> nodes w2 = nodes w \<and> ended_queue w2 = ended_queue w"
  by (auto simp: decode_rest_def Let_def split: sum.splits if_splits)

lemma decode_begin_graph:
  "nodes (snd (decode_begin url w)) = nodes w \<and>
   ended_queue (snd (decode_begin url w)) = ended_queue w"
  by (simp add: decode_begin_def split: option.splits)

lemma notify_frame:
  "p_paused (notify ev h) = p_paused h" "sourceNode (notify ev h) = sourceNode h"
  "audioBuffer (notify ev h) = audioBuffer h" "p_duration (notify ev h) = p_duration h"
  "isLoading (notify ev h) = isLoading h" "loadError (notify ev h) = loadError h"
  "p_src (notify ev h) = p_src h" "onerror (notify ev h) = onerror h"
  "p_currentTime (notify ev h) = p_currentTime h"
  by (simp_all add: notify_def)

lemma settle_frame:
  "loadAudio_settle hst task h w = (h2, w2) \<Longrightarrow>
     p_paused h2 = p_paused h \<and> sourceNode h2 = sourceNode h \<and> nodes w2 = nodes w \<and>
     ended_queue w2 = ended_queue w"
  by (auto simp: loadAudio_settle_def notify_frame dest: decode_rest_graph
      split: load_task.splits option.splits sum.splits prod.splits)

text \<open>
  C7, as stated, fails at \<open>NaN\<close>: the stored volume becomes \<open>NaN\<close>, the write to the
  gain node raises, and the gain keeps its old value.
\<close>

theorem volume_nan_raises:
  "set_volume NaN new_PolyfillAudioElement =
     Threw (TypeError ''gain.value is non-finite'') (new_PolyfillAudioElement\<lparr>p_volume := NaN\<rparr>)
   \<and> p_volume (state_of (set_volume NaN new_PolyfillAudioElement)) = NaN
   \<and> gainNode (state_of (set_volume NaN new_PolyfillAudioElement)) = Some (Num 1)"
  by (simp add: set_volume_def Math_max_def Math_min_def new_PolyfillAudioElement_def Let_def)

text \<open>
  C7, amended (the stored volume is the written value clamped to [0,1], in any state,
  at once, for every value other than \<open>NaN\<close>). A finite value \<open>r\<close> is stored as
  \<open>clamp r 0 1\<close> and the infinities as 0 and 1; the setter returns normally, the gain
  node carries the stored value when it returns, and no other field of the handle
  changes.
\<close>

theorem volume_clamped:
  "set_volume (Num r) h =
     Ok (h\<lparr>p_volume := Num (clamp r 0 1),
           gainNode := map_option (\<lambda>g. Num (clamp r 0 1)) (gainNode h)\<rparr>)
   \<and> set_volume NegInf h =
       Ok (h\<lparr>p_volume := Num 0, gainNode := map_option (\<lambda>g. Num 0) (gainNode h)\<rparr>)
   \<and> set_volume PosInf h =
       Ok (h\<lparr>p_volume := Num 1, gainNode := map_option (\<lambda>g. Num 1) (gainNode h)\<rparr>)"
proof -
  have finite: "Math_max (Num 0) (Math_min (Num 1) (Num r)) = Num (clamp r 0 1)"
    by (simp add: Math_max_def Math_min_def clamp_def)
  have infinite: "Math_max (Num 0) (Math_min (Num 1) NegInf) = Num 0"
    "Math_max (Num 0) (Math_min (Num 1) PosInf) = Num 1"
    by (simp_all add: Math_max_def Math_min_def)
  have setter: "set_volume v h =
      Ok (h\<lparr>p_volume := Num c, gainNode := map_option (\<lambda>g. Num c) (gainNode h)\<rparr>)"
    if "Math_max (Num 0) (Math_min (Num 1) v) = Num c" for v c
    using that by (cases "gainNode h") (simp_all add: set_volume_def Let_def)
  from setter [OF finite] setter [OF infinite(1)] setter [OF infinite(2)]
  show ?thesis by simp
qed

text \<open>
  C10 (assigning the source changes neither \<open>paused\<close> nor the render node). The
  assignment writes the source and resets duration, stored time, buffer and load error,
  and raises \<open>isLoading\<close> when it starts a load; every other field keeps its value, in
  particular \<open>paused\<close> and \<open>sourceNode\<close>, and the audio graph is untouched, so a
  render node that was playing still plays. The same holds once the load it started has
  settled.
\<close>

theorem set_src_frame:
  "(case set_src v h w of
      (h1, w1, t) \<Rightarrow>
        p_paused h1 = p_paused h \<and> sourceNode h1 = sourceNode h \<and> nodes w1 = nodes w \<and>
        ended_queue w1 = ended_queue w \<and>
        h1 = h\<lparr>p_src := v, p_duration := Num 0, p_currentTime := Num 0, audioBuffer := None,
               loadError := None, isLoading := (isLoading h \<or> endsWith v ''.opus'')\<rparr> \<and>
        (case t of
           None \<Rightarrow> True
         | Some task \<Rightarrow>
             (case loadAudio_settle hst task h1 w1 of
                (h2, w2) \<Rightarrow>
                  p_paused h2 = p_paused h \<and> sourceNode h2 = sourceNode h \<and>
                  nodes w2 = nodes w \<and> ended_queue w2 = ended_queue w)))"
proof -
  obtain h1 w1 t where s: "set_src v h w = (h1, w1, t)" by (cases "set_src v h w")
  have e: "endsWith v ''.opus'' \<Longrightarrow> v \<noteq> []" by (rule endsWith_nonempty)
  have e': "\<not> endsWith [] ''.opus''" by (simp add: endsWith_def)
  have a: "p_paused h1 = p_paused h \<and> sourceNode h1 = sourceNode h \<and> nodes w1 = nodes w \<and>
        ended_queue w1 = ended_queue w \<and>
        h1 = h\<lparr>p_src := v, p_duration := Num 0, p_currentTime := Num 0, audioBuffer := None,
               loadError := None, isLoading := (isLoading h \<or> endsWith v ''.opus'')\<rparr>"
    using s e e' decode_begin_graph [of v w]
    by (auto simp: set_src_def loadAudio_def Let_def split: if_splits prod.splits)
  show ?thesis
  proof (cases t)
    case None
    with s a show ?thesis by simp
  next
    case (Some task)
    obtain h2 w2 where l: "loadAudio_settle hst task h1 w1 = (h2, w2)"
      by (cases "loadAudio_settle hst task h1 w1")
    from settle_frame [OF l] a s Some l show ?thesis by simp
  qed
qed

lemma settle_is_decode:
  assumes "decode_begin url w0 = (hit, w1)"
  shows "(case hit of Some b \<Rightarrow> (Inr b, w1) | None \<Rightarrow> decode_rest hst url w1) =
         decodeOpusFile hst url w0"
  using assms by (auto simp: decodeOpusFile_def split: option.splits)

text \<open>While a load is in flight, whatever started it, no trigger starts another.\<close>

lemma load_triggers_dropped:
  assumes "isLoading h"
  shows "set_src v h w =
           (h\<lparr>p_src := v, loadError := None, audioBuffer := None, p_duration := Num 0,
              p_currentTime := Num 0\<rparr>, w, None)"
    and "load h w = (h, w, None)"
  using assms by (simp_all add: set_src_def load_def loadAudio_def Let_def)

text \<open>
  C9 (load triggers during a load in flight are dropped). A handle with no load in
  flight is given the source \<open>u1\<close>, which starts a load; while it is in flight the
  source is reassigned to \<open>u2\<close> and \<^verbatim>\<open>load()\<close> is called. Neither starts a load or
  touches the global state. When the load in flight settles, the source reads \<open>u2\<close>,
  while buffer and duration (or the load error) are those of decoding \<open>u1\<close>.
\<close>

theorem in_flight_load_wins:
  assumes "\<not> isLoading h0" and "endsWith u1 ''.opus''"
  shows "case set_src u1 h0 w0 of (h1, w1, t1) \<Rightarrow>
           (case set_src u2 h1 w1 of (h2, w2, t2) \<Rightarrow>
              (case load h2 w2 of (h3, w3, t3) \<Rightarrow>
                 t2 = None \<and> t3 = None \<and> w2 = w1 \<and> w3 = w1 \<and> isLoading h3 \<and> p_src h3 = u2 \<and>
                 (case t1 of
                    None \<Rightarrow> False
                  | Some task \<Rightarrow>
                      (case loadAudio_settle hst task h3 w3 of (h4, w4) \<Rightarrow>
                         p_src h4 = u2 \<and> \<not> isLoading h4 \<and>
                         (case decodeOpusFile hst u1 w0 of
                            (Inr b, w') \<Rightarrow>
                              audioBuffer h4 = Some b \<and> p_duration h4 = buffer_duration b \<and> w4 = w'
                          | (Inl e, w') \<Rightarrow>
                              audioBuffer h4 = None \<and> loadError h4 = Some e \<and> w4 = w')))))"
proof -
  obtain hit w1 where b: "decode_begin u1 w0 = (hit, w1)" by (cases "decode_begin u1 w0")
  define h1 where "h1 = h0\<lparr>p_src := u1, loadError := None, audioBuffer := None,
      p_duration := Num 0, p_currentTime := Num 0, isLoading := True\<rparr>"
  define h2 where "h2 = h1\<lparr>p_src := u2, loadError := None, audioBuffer := None,
      p_duration := Num 0, p_currentTime := Num 0\<rparr>"
  have s1: "set_src u1 h0 w0 = (h1, w1, Some (LoadTask u1 hit))"
    using assms b endsWith_nonempty [OF assms(2)]
    by (simp add: set_src_def loadAudio_def h1_def Let_def)
  have l1: "isLoading h1" by (simp add: h1_def)
  have s2: "set_src u2 h1 w1 = (h2, w1, None)"
    using l1 by (simp add: set_src_def loadAudio_def h2_def Let_def)
  have l2: "isLoading h2" using l1 by (simp add: h2_def)
  have s3: "load h2 w1 = (h2, w1, None)"
    using l2 by (simp add: load_def loadAudio_def)
  have src: "p_src h2 = u2" by (simp add: h2_def)
  have ab: "audioBuffer h2 = None" by (simp add: h2_def)
  obtain r w' where d: "decodeOpusFile hst u1 w0 = (r, w')" by (cases "decodeOpusFile hst u1 w0")
  with settle_is_decode [OF b, of hst]
  have k: "(case hit of Some b \<Rightarrow> (Inr b, w1) | None \<Rightarrow> decode_rest hst u1 w1) = (r, w')"
    by simp
  have "case loadAudio_settle hst (LoadTask u1 hit) h2 w1 of (h4, w4) \<Rightarrow>
          p_src h4 = u2 \<and> \<not> isLoading h4 \<and>
          (case (r, w') of
             (Inr b, w') \<Rightarrow> audioBuffer h4 = Some b \<and> p_duration h4 = buffer_duration b \<and> w4 = w'
           | (Inl e, w') \<Rightarrow> audioBuffer h4 = None \<and> loadError h4 = Some e \<and> w4 = w')"
    using k src ab by (cases r) (simp_all add: loadAudio_settle_def notify_frame)
  then show ?thesis using s1 s2 s3 l2 src d by simp
qed

theorem in_flight_load_wins_witness:
  "\<not> isLoading new_PolyfillAudioElement \<and> endsWith ''a.opus'' ''.opus'' \<and>
   (case set_src ''a.opus'' new_PolyfillAudioElement fresh_world of (h1, w1, t1) \<Rightarrow>
      (case set_src ''b.opus'' h1 w1 of (h2, w2, t2) \<Rightarrow>
         (case load h2 w2 of (h3, w3, t3) \<Rightarrow>
            t2 = None \<and> t3 = None \<and> w2 = w1 \<and> w3 = w1 \<and> isLoading h3 \<and> p_src h3 = ''b.opus'' \<and>
            (case t1 of
               None \<Rightarrow> False
             | Some task \<Rightarrow>
                 (case loadAudio_settle demo_host task h3 w3 of (h4, w4) \<Rightarrow>
                    p_src h4 = ''b.opus'' \<and> \<not> isLoading h4 \<and>
                    (case decodeOpusFile demo_host ''a.opus'' fresh_world of
                       (Inr b, w') \<Rightarrow>
                         audioBuffer h4 = Some b \<and> p_duration h4 = buffer_duration b \<and> w4 = w'
                     | (Inl e, w') \<Rightarrow>
                         audioBuffer h4 = None \<and> loadError h4 = Some e \<and> w4 = w'))))))
   \<and> fst (decodeOpusFile demo_host ''a.opus'' fresh_world) = Inr demo_buffer"
proof -
  have a: "\<not> isLoading new_PolyfillAudioElement" by (simp add: new_PolyfillAudioElement_def)
  have b: "endsWith ''a.opus'' ''.opus''" by (simp add: endsWith_def)
  have c: "fst (decodeOpusFile demo_host ''a.opus'' fresh_world) = Inr demo_buffer"
    by (simp add: decodeOpusFile_def decode_begin_def demo_decode_rest fresh_world_def)
  from in_flight_load_wins [where ?h0.0 = new_PolyfillAudioElement and ?u1.0 = "''a.opus''"
      and ?w0.0 = fresh_world and ?u2.0 = "''b.opus''" and hst = demo_host, OF a b] a b c
  show ?thesis by blast
qed

lemma play_errored:
  assumes "audioBuffer h = None" and "\<not> isLoading h"
  shows "play h w = Returned (notify Error h) (w\<lparr>ctx_suspended := False\<rparr>)"
  using assms by (simp add: play_def Let_def)

lemma play_repeatedly_errored:
  assumes "audioBuffer h = None" and "\<not> isLoading h"
  shows "\<exists>h3 w3. play_repeatedly k h w = Some (h3, w3) \<and>
           h3 = h\<lparr>notified := notified h @ (if onerror h then replicate k Error else [])\<rparr> \<and>
           nodes w3 = nodes w \<and> ended_queue w3 = ended_queue w"
  using assms
proof (induction k arbitrary: h w)
  case 0
  then show ?case by simp
next
  case (Suc k)
  let ?h1 = "notify Error h" and ?w1 = "w\<lparr>ctx_suspended := False\<rparr>"
  have p: "play h w = Returned ?h1 ?w1" using Suc.prems by (rule play_errored)
  have "audioBuffer ?h1 = None" "\<not> isLoading ?h1" using Suc.prems by (simp_all add: notify_frame)
  from Suc.IH [OF this, of ?w1] obtain h3 w3 where
    r: "play_repeatedly k ?h1 ?w1 = Some (h3, w3)"
      "h3 = ?h1\<lparr>notified := notified ?h1 @ (if onerror ?h1 then replicate k Error else [])\<rparr>"
      "nodes w3 = nodes ?w1" "ended_queue w3 = ended_queue ?w1" by blast
  have "h3 = h\<lparr>notified := notified h @ (if onerror h then replicate (Suc k) Error else [])\<rparr>"
    using r(2) by (simp add: notify_def replicate_app_Cons_same)
  with r p show ?case by simp
qed

text \<open>
  A load started by a source assignment, with no load in flight, that is fetched and
  decodes to zero frames settles without raising: the decode error is stored in
  \<open>loadError\<close>, the error handler, if one is attached, is notified once, \<open>duration\<close>
  is 0, there is no buffer and no load in flight, and \<open>paused\<close> and the render node are
  as before. Every later \<^verbatim>\<open>play()\<close> returns at once: after \<open>k\<close> calls the attached
  error handler has been notified \<open>k\<close> more times, no render node was created or
  stopped, and \<open>paused\<close> still has its value.
\<close>

lemma zero_frames_load_errors:
  assumes "\<not> isLoading h0" and "endsWith u ''.opus''"
    and "map_of (audioBufferCache w0) u = None"
    and "fetch hst u = Inr resp" and "ok resp"
    and "samplesDecoded (decodeFile hst (body resp)) = 0"
  shows "case set_src u h0 w0 of (h1, w1, t) \<Rightarrow>
           (case t of
              None \<Rightarrow> False
            | Some task \<Rightarrow>
                (case loadAudio_settle hst task h1 w1 of (h2, w2) \<Rightarrow>
                   p_duration h2 = Num 0 \<and> audioBuffer h2 = None \<and>
                   loadError h2 = Some (DecodeError u) \<and> \<not> isLoading h2 \<and>
                   p_paused h2 = p_paused h0 \<and> sourceNode h2 = sourceNode h0 \<and>
                   notified h2 = notified h0 @ (if onerror h0 then [Error] else []) \<and>
                   (\<forall>k. case play_repeatedly k h2 w2 of
                           None \<Rightarrow> False
                         | Some (h3, w3) \<Rightarrow>
                             p_paused h3 = p_paused h0 \<and> sourceNode h3 = sourceNode h0 \<and>
                             nodes w3 = nodes w0 \<and> ended_queue w3 = ended_queue w0 \<and>
                             audioBuffer h3 = None \<and> p_duration h3 = Num 0 \<and>
                             notified h3 =
                               notified h2 @ (if onerror h0 then replicate k Error else []))))"
proof -
  define h1 where "h1 = h0\<lparr>p_src := u, loadError := None, audioBuffer := None,
      p_duration := Num 0, p_currentTime := Num 0, isLoading := True\<rparr>"
  define w1 where "w1 = w0\<lparr>decoder := True\<rparr>"
  define w2 where "w2 = w1\<lparr>fetched := fetched w1 @ [u], decodeCalls := decodeCalls w1 @ [u]\<rparr>"
  define h2 where "h2 = notify Error (h1\<lparr>isLoading := False, loadError := Some (DecodeError u)\<rparr>)"
  have s1: "set_src u h0 w0 = (h1, w1, Some (LoadTask u None))"
    using assms(1,2,3) endsWith_nonempty [OF assms(2)]
    by (simp add: set_src_def loadAudio_def decode_begin_def h1_def w1_def Let_def)
  have dr: "decode_rest hst u w1 = (Inl (DecodeError u), w2)"
    using assms(4,5,6) by (simp add: decode_rest_def Let_def w2_def)
  have s2: "loadAudio_settle hst (LoadTask u None) h1 w1 = (h2, w2)"
    using dr by (simp add: loadAudio_settle_def h2_def)
  have f: "p_duration h2 = Num 0" "audioBuffer h2 = None" "loadError h2 = Some (DecodeError u)"
    "\<not> isLoading h2" "p_paused h2 = p_paused h0" "sourceNode h2 = sourceNode h0"
    "onerror h2 = onerror h0"
    by (simp_all add: h2_def notify_frame h1_def)
  have n: "notified h2 = notified h0 @ (if onerror h0 then [Error] else [])"
    by (simp add: h2_def notify_def h1_def)
  have g: "nodes w2 = nodes w0" "ended_queue w2 = ended_queue w0"
    by (simp_all add: w2_def w1_def)
  have "case play_repeatedly k h2 w2 of
          None \<Rightarrow> False
        | Some (h3, w3) \<Rightarrow>
            p_paused h3 = p_paused h0 \<and> sourceNode h3 = sourceNode h0 \<and>
            nodes w3 = nodes w0 \<and> ended_queue w3 = ended_queue w0 \<and>
            audioBuffer h3 = None \<and> p_duration h3 = Num 0 \<and>
            notified h3 = notified h2 @ (if onerror h0 then replicate k Error else [])" for k
  proof -
    from play_repeatedly_errored [OF f(2) f(4), of k w2] obtain h3 w3 where
      r: "play_repeatedly k h2 w2 = Some (h3, w3)"
        "h3 = h2\<lparr>notified := notified h2 @ (if onerror h2 then replicate k Error else [])\<rparr>"
        "nodes w3 = nodes w2" "ended_queue w3 = ended_queue w2" by blast
    then show ?thesis using f g by simp
  qed
  then show ?thesis using s1 s2 f n by simp
qed

text \<open>
  C6 (after a load that failed with zero decoded frames, duration is 0 and every
  \<^verbatim>\<open>play()\<close> notifies an error, starts no playback and leaves \<open>paused\<close> unchanged).
  \<^verbatim>\<open>play()\<close> tests the buffer only and never reads \<open>loadError\<close>, and a load started
  by \<^verbatim>\<open>load()\<close> resets neither buffer nor duration. In the state \<open>reloaded\<close> the load
  of \<open>b.opus\<close> has failed with zero frames and the error handler was notified, but the
  handle still holds the buffer and the duration of \<open>a.opus\<close>: \<^verbatim>\<open>play()\<close> creates a
  render node, clears \<open>paused\<close> and notifies no error.
\<close>

theorem stale_buffer_plays_after_failed_load:
  "loadError (fst reloaded) = Some (DecodeError ''b.opus'')
   \<and> decodeCalls (snd reloaded) = [''a.opus'', ''b.opus'']
   \<and> notified (fst reloaded) = [Error]
   \<and> p_src (fst reloaded) = ''b.opus''
   \<and> audioBuffer (fst reloaded) = Some demo_buffer
   \<and> p_duration (fst reloaded) \<noteq> Num 0
   \<and> p_paused (fst reloaded)
   \<and> map_option p_paused (played (play (fst reloaded) (snd reloaded))) = Some False
   \<and> map_option sourceNode (played (play (fst reloaded) (snd reloaded))) = Some (Some 0)
   \<and> map_option notified (played (play (fst reloaded) (snd reloaded))) = Some [Error]"
  by (simp add: reloaded_def set_src_def endsWith_def loadAudio_def decode_begin_def
      fresh_world_def loadAudio_settle_def decode_rest_def one_track_host_def createBuffer_def
      typed_set_def cache_insert_def notify_def buffer_duration_def load_def demo_buffer_def
      new_PolyfillAudioElement_def play_def stop_def playFromOffset_def start_error_def
      js_sub_def Let_def numeral_2_eq_2)

text \<open>The handle of the next evaluation is what loading ten seconds of audio leaves.\<close>

lemma ready_handle_loaded:
  "(case set_src ''song.opus'' (new_PolyfillAudioElement\<lparr>onended := True\<rparr>) fresh_world of
      (h1, w1, t) \<Rightarrow>
        (case t of
           None \<Rightarrow> False
         | Some task \<Rightarrow> fst (loadAudio_settle long_host task h1 w1) = ready_handle))"
  by (simp add: set_src_def endsWith_def loadAudio_def decode_begin_def fresh_world_def
      loadAudio_settle_def decode_rest_def long_host_def createBuffer_def typed_set_def
      notify_def buffer_duration_def ready_handle_def long_buffer_def
      new_PolyfillAudioElement_def Let_def)

text \<open>
  C4 (\<^verbatim>\<open>ended\<close> fires only when the buffer was played to its end). A handle that has
  loaded ten seconds of audio and does not loop is played, and paused two seconds
  later: \<^verbatim>\<open>pause()\<close> stores the position 2 and stops the render node. The node has an
  \<^verbatim>\<open>ended\<close> event queued although its buffer was not played to the end; when the event
  is dispatched, the closure set in \<^verbatim>\<open>playFromOffset\<close> notifies \<^verbatim>\<open>ended\<close> and resets
  the stored position to 0.
\<close>

theorem ended_fires_after_pause:
  "(case play ready_handle fresh_world of
      Returned h1 w1 \<Rightarrow>
        \<not> p_paused h1 \<and> sourceNode h1 = Some 0 \<and> ended_queue w1 = [] \<and>
        (case pause h1 (w1\<lparr>ctx_currentTime := 12\<rparr>) of
           (h2, w2) \<Rightarrow>
             p_paused h2 \<and> p_currentTime h2 = Num 2 \<and> notified h2 = [] \<and>
             ended_queue w2 = [0] \<and> buffer_end 0 w2 = None \<and>
             (case dispatch_ended h2 w2 of
                Some (h3, w3) \<Rightarrow>
                  notified h3 = [Ended] \<and> p_currentTime h3 = Num 0 \<and> ended_queue w3 = []
              | None \<Rightarrow> False))
    | _ \<Rightarrow> False)"
  by (simp add: play_def ready_handle_def fresh_world_def new_PolyfillAudioElement_def stop_def
      playFromOffset_def start_error_def notify_def pause_def get_currentTime_def js_sub_def
      node_stop_disconnect_def buffer_end_def dispatch_ended_def sourceNode_onended_def Let_def)

text \<open>
  When the render node does reach the end of its buffer, \<^verbatim>\<open>ended\<close> is notified once,
  and a looping handle is never notified.
\<close>

lemma ended_once_at_buffer_end:
  "(case play ready_handle fresh_world of
      Returned h1 w1 \<Rightarrow>
        (case buffer_end 0 w1 of
           Some w2 \<Rightarrow>
             (case dispatch_ended h1 w2 of
                Some (h3, w3) \<Rightarrow>
                  notified h3 = [Ended] \<and> p_paused h3 \<and> p_currentTime h3 = Num 0 \<and>
                  dispatch_ended h3 w3 = None \<and> buffer_end 0 w3 = None
              | None \<Rightarrow> False)
         | None \<Rightarrow> False)
    | _ \<Rightarrow> False)"
  by (simp add: play_def ready_handle_def fresh_world_def new_PolyfillAudioElement_def stop_def
      playFromOffset_def start_error_def notify_def buffer_end_def dispatch_ended_def
      sourceNode_onended_def js_sub_def Let_def)

lemma looping_never_notified: "p_loop h \<Longrightarrow> sourceNode_onended h = h"
  by (simp add: sourceNode_onended_def)


section \<open>Properties of the remote offset command\<close>

lemma array_index_bound: "array_index xs k = Some i \<Longrightarrow> i < length xs"
  by (auto simp: array_index_def split: jsnum.splits if_splits)

text \<open>
  Writing the stored time of a software handle that is paused or has no buffer only
  stores the value; on a playing handle it restarts playback, which succeeds for a finite
  offset that is not negative.
\<close>

lemma set_currentTime_ok:
  assumes "p_paused p \<or> audioBuffer p = None \<or> 0 \<le> x"
  shows "\<exists>p1 w1. set_currentTime (Num x) p w = Ok (p1, w1) \<and> p_currentTime p1 = Num x \<and>
           p_src p1 = p_src p"
  using assms
  by (auto simp: set_currentTime_def stop_def playFromOffset_def start_error_def Let_def
      split: option.splits)

text \<open>A command that returns normally on an existing channel has registered its callback.\<close>

lemma callback_registered:
  assumes "array_index (music vp) (or_zero chanArg) = Some i"
    and "handleRMC chanArg offArg t0 vp = Ok vp1"
  shows "\<lparr>totime = or_zero offArg, loadStartTime = real_of_int t0 / 1000\<rparr>
            \<in> set (listeners_of (music vp1 ! i))
         \<or> (100, i, \<lparr>totime = or_zero offArg, loadStartTime = real_of_int t0 / 1000\<rparr>)
            \<in> set (timers vp1)"
proof -
  have b: "i < length (music vp)" using assms(1) by (rule array_index_bound)
  obtain m1 w1 where p: "el_pause (music vp ! i) (vworld vp) = (m1, w1)"
    by (cases "el_pause (music vp ! i) (vworld vp)")
  show ?thesis
  proof (cases m1)
    case (Native n)
    with assms p b show ?thesis by (auto simp: handleRMC_def Let_def)
  next
    case (Facade n q)
    with assms p b show ?thesis by (auto simp: handleRMC_def Let_def split: if_splits)
  next
    case (Software q)
    with assms p b show ?thesis by (auto simp: handleRMC_def Let_def)
  qed
qed

text \<open>
  Drift compensation, on the channels where the command returns normally. A command
  with a finite offset \<open>r\<close>, received at wall-clock time \<open>t0\<close> (milliseconds) for an
  existing channel \<open>i\<close>, has then registered a callback, as a \<^verbatim>\<open>loadedmetadata\<close>
  listener or as a 100 ms timer, whose closure holds \<open>r\<close> and \<open>t0 / 1000\<close>. Run at time
  \<open>t1\<close>, on whatever state the pool then has, the two statements of the callback write
  \<open>r + (t1 - t0) / 1000\<close> to the channel's \<^verbatim>\<open>currentTime\<close> and then call
  \<^verbatim>\<open>play()\<close>: on a native handle both appear, in this order, in the calls it received;
  on a software handle the stored time is the value written and a \<^verbatim>\<open>play()\<close> is in
  flight; the facade writes both of its handles and plays the one its source routes to.
  For a software handle this is stated where the write cannot raise: the handle is
  paused or has no buffer, or the value is not negative.
\<close>

lemma drift_compensated_seek:
  assumes "array_index (music vp) (or_zero chanArg) = Some i"
    and "handleRMC chanArg offArg t0 vp = Ok vp1"
    and "or_zero offArg = Num r"
  shows "let cl = \<lparr>totime = Num r, loadStartTime = real_of_int t0 / 1000\<rparr>;
             x = r + real_of_int (t1 - t0) / 1000
         in (cl \<in> set (listeners_of (music vp1 ! i)) \<or> (100, i, cl) \<in> set (timers vp1)) \<and>
            (case music vp2 ! i of
               Native n \<Rightarrow>
                 seek_and_play t1 cl i vp2 =
                   Ok (vp2\<lparr>music := (music vp2)
                              [i := Native (n\<lparr>n_calls := n_calls n @
                                                 [NSetCurrentTime (Num x), NPlay]\<rparr>)]\<rparr>)
             | Facade n p \<Rightarrow>
                 p_paused p \<or> audioBuffer p = None \<or> 0 \<le> x \<longrightarrow>
                 (\<exists>p1 w1. set_currentTime (Num x) p (vworld vp2) = Ok (p1, w1) \<and>
                    p_currentTime p1 = Num x \<and>
                    seek_and_play t1 cl i vp2 =
                      Ok (if isOpus n p
                          then vp2\<lparr>music := (music vp2)
                                     [i := Facade (n\<lparr>n_calls := n_calls n @
                                                        [NSetCurrentTime (Num x)]\<rparr>) p1],
                                   vworld := w1, plays := plays vp2 @ [i]\<rparr>
                          else vp2\<lparr>music := (music vp2)
                                     [i := Facade (n\<lparr>n_calls := n_calls n @
                                                        [NSetCurrentTime (Num x), NPlay]\<rparr>) p1],
                                   vworld := w1\<rparr>))
             | Software p \<Rightarrow>
                 p_paused p \<or> audioBuffer p = None \<or> 0 \<le> x \<longrightarrow>
                 (\<exists>p1 w1. set_currentTime (Num x) p (vworld vp2) = Ok (p1, w1) \<and>
                    p_currentTime p1 = Num x \<and>
                    seek_and_play t1 cl i vp2 =
                      Ok (vp2\<lparr>music := (music vp2)[i := Software p1], vworld := w1,
                              plays := plays vp2 @ [i]\<rparr>)))"
proof -
  define cl where "cl = \<lparr>totime = Num r, loadStartTime = real_of_int t0 / 1000\<rparr>"
  define x where "x = r + real_of_int (t1 - t0) / 1000"
  have dr: "js_add (totime cl) (Num (real_of_int t1 / 1000 - loadStartTime cl)) = Num x"
    by (simp add: cl_def x_def diff_divide_distrib)
  have reg: "cl \<in> set (listeners_of (music vp1 ! i)) \<or> (100, i, cl) \<in> set (timers vp1)"
    using callback_registered [OF assms(1,2)] assms(3) by (simp add: cl_def)
  have cb: "case music vp2 ! i of
               Native n \<Rightarrow>
                 seek_and_play t1 cl i vp2 =
                   Ok (vp2\<lparr>music := (music vp2)
                              [i := Native (n\<lparr>n_calls := n_calls n @
                                                 [NSetCurrentTime (Num x), NPlay]\<rparr>)]\<rparr>)
             | Facade n p \<Rightarrow>
                 p_paused p \<or> audioBuffer p = None \<or> 0 \<le> x \<longrightarrow>
                 (\<exists>p1 w1. set_currentTime (Num x) p (vworld vp2) = Ok (p1, w1) \<and>
                    p_currentTime p1 = Num x \<and>
                    seek_and_play t1 cl i vp2 =
                      Ok (if isOpus n p
                          then vp2\<lparr>music := (music vp2)
                                     [i := Facade (n\<lparr>n_calls := n_calls n @
                                                        [NSetCurrentTime (Num x)]\<rparr>) p1],
                                   vworld := w1, plays := plays vp2 @ [i]\<rparr>
                          else vp2\<lparr>music := (music vp2)
                                     [i := Facade (n\<lparr>n_calls := n_calls n @
                                                        [NSetCurrentTime (Num x), NPlay]\<rparr>) p1],
                                   vworld := w1\<rparr>))
             | Software p \<Rightarrow>
                 p_paused p \<or> audioBuffer p = None \<or> 0 \<le> x \<longrightarrow>
                 (\<exists>p1 w1. set_currentTime (Num x) p (vworld vp2) = Ok (p1, w1) \<and>
                    p_currentTime p1 = Num x \<and>
                    seek_and_play t1 cl i vp2 =
                      Ok (vp2\<lparr>music := (music vp2)[i := Software p1], vworld := w1,
                              plays := plays vp2 @ [i]\<rparr>))"
  proof (cases "music vp2 ! i")
    case (Native n)
    then show ?thesis
      using dr by (simp add: seek_and_play_def native_set_currentTime_def native_call_def Let_def)
  next
    case (Facade n p)
    have "\<exists>p1 w1. set_currentTime (Num x) p (vworld vp2) = Ok (p1, w1) \<and>
                    p_currentTime p1 = Num x \<and>
                    seek_and_play t1 cl i vp2 =
                      Ok (if isOpus n p
                          then vp2\<lparr>music := (music vp2)
                                     [i := Facade (n\<lparr>n_calls := n_calls n @
                                                        [NSetCurrentTime (Num x)]\<rparr>) p1],
                                   vworld := w1, plays := plays vp2 @ [i]\<rparr>
                          else vp2\<lparr>music := (music vp2)
                                     [i := Facade (n\<lparr>n_calls := n_calls n @
                                                        [NSetCurrentTime (Num x), NPlay]\<rparr>) p1],
                                   vworld := w1\<rparr>)"
      if ok: "p_paused p \<or> audioBuffer p = None \<or> 0 \<le> x"
    proof -
      from set_currentTime_ok [OF ok, of "vworld vp2"] obtain p1 w1 where
        s: "set_currentTime (Num x) p (vworld vp2) = Ok (p1, w1)" "p_currentTime p1 = Num x"
          "p_src p1 = p_src p" by blast
      have "isOpus (n\<lparr>n_calls := n_calls n @ [NSetCurrentTime (Num x)]\<rparr>) p1 = isOpus n p"
        using s(3) by (simp add: isOpus_def)
      with Facade s dr show ?thesis
        by (simp add: seek_and_play_def native_set_currentTime_def native_call_def Let_def)
    qed
    with Facade show ?thesis by simp
  next
    case (Software p)
    have "\<exists>p1 w1. set_currentTime (Num x) p (vworld vp2) = Ok (p1, w1) \<and>
                    p_currentTime p1 = Num x \<and>
                    seek_and_play t1 cl i vp2 =
                      Ok (vp2\<lparr>music := (music vp2)[i := Software p1], vworld := w1,
                              plays := plays vp2 @ [i]\<rparr>)"
      if ok: "p_paused p \<or> audioBuffer p = None \<or> 0 \<le> x"
    proof -
      from set_currentTime_ok [OF ok, of "vworld vp2"] obtain p1 w1 where
        s: "set_currentTime (Num x) p (vworld vp2) = Ok (p1, w1)" "p_currentTime p1 = Num x"
        by blast
      with Software dr show ?thesis
        by (simp add: seek_and_play_def Let_def)
    qed
    with Software show ?thesis by simp
  qed
  from reg cb show ?thesis unfolding Let_def cl_def x_def by simp
qed

text \<open>
  The instance of the specification on a bare software handle: offset 5.0, command at
  \<open>T0\<close>, the timer's callback 0.3 s later; the value written is 5.3.
\<close>

lemma drift_compensated_seek_instance:
  "array_index (music (pool_of (Software ready_handle))) (or_zero (Num 0)) = Some 0 \<and>
   handleRMC (Num 0) (Num 5) 1000000 (pool_of (Software ready_handle)) =
     Ok ((pool_of (Software ready_handle))
           \<lparr>timers := [(100, 0, \<lparr>totime = Num 5, loadStartTime = 1000\<rparr>)]\<rparr>) \<and>
   or_zero (Num 5) = Num 5 \<and>
   p_paused ready_handle \<and>
   seek_and_play 1000300 \<lparr>totime = Num 5, loadStartTime = 1000\<rparr> 0
       (pool_of (Software ready_handle)) =
     Ok ((pool_of (Software (ready_handle\<lparr>p_currentTime := Num (53 / 10)\<rparr>)))\<lparr>plays := [0]\<rparr>)"
proof -
  let ?vp = "pool_of (Software ready_handle)"
  let ?vp1 = "?vp\<lparr>timers := [(100, 0, \<lparr>totime = Num 5, loadStartTime = 1000\<rparr>)]\<rparr>"
  have a: "array_index (music ?vp) (or_zero (Num 0)) = Some 0"
    by (simp add: array_index_def or_zero_def pool_of_def)
  have b: "handleRMC (Num 0) (Num 5) 1000000 ?vp = Ok ?vp1"
    by (simp add: handleRMC_def array_index_def or_zero_def pool_of_def pause_def
        ready_handle_def new_PolyfillAudioElement_def Let_def)
  have c: "or_zero (Num 5) = Num 5" by (simp add: or_zero_def)
  have d: "p_paused ready_handle" by (simp add: ready_handle_def new_PolyfillAudioElement_def)
  have m: "music ?vp ! 0 = Software ready_handle" by (simp add: pool_of_def)
  have s: "set_currentTime (Num (53 / 10)) ready_handle fresh_world =
             Ok (ready_handle\<lparr>p_currentTime := Num (53 / 10)\<rparr>, fresh_world)"
    using d by (simp add: set_currentTime_def Let_def)
  have "seek_and_play 1000300 \<lparr>totime = Num 5, loadStartTime = 1000\<rparr> 0 ?vp =
          Ok ((pool_of (Software (ready_handle\<lparr>p_currentTime := Num (53 / 10)\<rparr>)))\<lparr>plays := [0]\<rparr>)"
    using drift_compensated_seek [OF a b c, of 1000300 ?vp] m d s
    by (auto simp: Let_def pool_of_def)
  with a b c d show ?thesis by blast
qed

text \<open>The same instance on a native handle, through the listener.\<close>

lemma native_seek_instance:
  "seek_and_play 1000300 \<lparr>totime = Num 5, loadStartTime = 1000\<rparr> 0
     (pool_of (Native (native_channel\<lparr>
           n_listeners := [\<lparr>totime = Num 5, loadStartTime = 1000\<rparr>], n_calls := [NPause]\<rparr>))) =
     Ok (pool_of (Native (native_channel\<lparr>
           n_listeners := [\<lparr>totime = Num 5, loadStartTime = 1000\<rparr>],
           n_calls := [NPause, NSetCurrentTime (Num (53 / 10)), NPlay]\<rparr>)))"
  by (simp add: seek_and_play_def pool_of_def native_set_currentTime_def native_call_def
      native_channel_def Let_def)

text \<open>Command and timer, one after the other, on the bare software handle.\<close>

lemma software_seek_instance:
  "(case handleRMC (Num 0) (Num 5) 1000000 (pool_of (Software ready_handle)) of
      Ok vp1 \<Rightarrow>
        fire_timer 1000300 vp1 =
          Some (100, Ok ((pool_of (Software (ready_handle\<lparr>p_currentTime := Num (53 / 10)\<rparr>)))
                           \<lparr>plays := [0]\<rparr>))
    | Threw e vp1 \<Rightarrow> False)"
  by (simp add: handleRMC_def or_zero_def array_index_def pool_of_def pause_def ready_handle_def
      new_PolyfillAudioElement_def fire_timer_def seek_and_play_def set_currentTime_def Let_def)

text \<open>The three shapes of a channel, one after the other.\<close>

lemma native_listens_once:
  assumes "array_index (music vp) (or_zero chanArg) = Some i"
    and "music vp ! i = Native n" and "n_listeners n = []" and "or_zero offArg = Num r"
  shows "\<exists>vp1. handleRMC chanArg offArg t0 vp = Ok vp1 \<and> timers vp1 = timers vp \<and>
           music vp1 ! i =
             Native (n\<lparr>n_calls := n_calls n @ [NPause],
                       n_listeners := [\<lparr>totime = Num r, loadStartTime = real_of_int t0 / 1000\<rparr>]\<rparr>) \<and>
           music (fire_loadedmetadata t1 i vp1) ! i =
             Native (n\<lparr>n_calls := n_calls n @
                         [NPause, NSetCurrentTime (Num (r + real_of_int (t1 - t0) / 1000)), NPlay],
                       n_listeners := []\<rparr>) \<and>
           fire_loadedmetadata t2 i (fire_loadedmetadata t1 i vp1) = fire_loadedmetadata t1 i vp1"
proof -
  have b: "i < length (music vp)" using assms(1) by (rule array_index_bound)
  define cl where "cl = \<lparr>totime = Num r, loadStartTime = real_of_int t0 / 1000\<rparr>"
  define vp1 where "vp1 = vp\<lparr>music := (music vp)
      [i := Native (n\<lparr>n_calls := n_calls n @ [NPause], n_listeners := [cl]\<rparr>)]\<rparr>"
  have h: "handleRMC chanArg offArg t0 vp = Ok vp1"
    using assms by (simp add: handleRMC_def Let_def vp1_def native_call_def flip: cl_def)
  have m1: "music vp1 ! i = Native (n\<lparr>n_calls := n_calls n @ [NPause], n_listeners := [cl]\<rparr>)"
    using b by (simp add: vp1_def)
  have dr: "js_add (totime cl) (Num (real_of_int t1 / 1000 - loadStartTime cl)) =
            Num (r + real_of_int (t1 - t0) / 1000)"
    by (simp add: cl_def diff_divide_distrib)
  define vp2 where "vp2 = vp\<lparr>music := (music vp)
      [i := Native (n\<lparr>n_calls := n_calls n @
                        [NPause, NSetCurrentTime (Num (r + real_of_int (t1 - t0) / 1000)), NPlay],
                      n_listeners := []\<rparr>)]\<rparr>"
  have f1: "fire_loadedmetadata t1 i vp1 = vp2"
    using b m1 dr
    by (simp add: fire_loadedmetadata_def onLoaded_def seek_and_play_def
        native_set_currentTime_def native_call_def Let_def vp1_def vp2_def)
  have m2: "music vp2 ! i = Native (n\<lparr>n_calls := n_calls n @
                        [NPause, NSetCurrentTime (Num (r + real_of_int (t1 - t0) / 1000)), NPlay],
                      n_listeners := []\<rparr>)"
    using b by (simp add: vp2_def)
  have f2: "fire_loadedmetadata t2 i vp2 = vp2"
    using m2 by (simp add: fire_loadedmetadata_def)
  from h m1 f1 m2 f2 show ?thesis by (simp add: vp1_def cl_def)
qed

lemma software_waits_100ms:
  assumes "array_index (music vp) (or_zero chanArg) = Some i"
    and "music vp ! i = Software p"
  shows "\<exists>vp1. handleRMC chanArg offArg t0 vp = Ok vp1 \<and>
               timers vp1 = timers vp @
                 [(100, i, \<lparr>totime = or_zero offArg, loadStartTime = real_of_int t0 / 1000\<rparr>)]"
  using assms by (simp add: handleRMC_def Let_def split: prod.splits)

lemma facade_opus_raises:
  assumes "array_index (music vp) (or_zero chanArg) = Some i"
    and "music vp ! i = Facade n p" and "isOpus n p"
  shows "\<exists>vp1. handleRMC chanArg offArg t0 vp =
                 Threw (TypeError ''music.addEventListener is not a function'') vp1 \<and>
               timers vp1 = timers vp \<and>
               listeners_of (music vp1 ! i) = listeners_of (music vp ! i)"
proof -
  have b: "i < length (music vp)" using assms(1) by (rule array_index_bound)
  obtain p1 w1 where p: "pause p (vworld vp) = (p1, w1)" by (cases "pause p (vworld vp)")
  then have "p_src p1 = p_src p"
    by (auto simp: pause_def stop_def notify_def split: if_splits option.splits)
  then have "isOpus n p1 = isOpus n p" unfolding isOpus_def by simp
  with assms p b show ?thesis by (simp add: handleRMC_def Let_def)
qed

text \<open>
  C2 (on every existing channel the readiness handler writes offset plus drift to
  \<^verbatim>\<open>currentTime\<close> and then calls \<^verbatim>\<open>play()\<close>). On the facade with an Opus source there
  is no readiness handler. The channel of \<open>playing_opus_pool\<close> has been playing for two
  seconds when the command with offset 5.0 arrives: the command pauses the software
  handle at 2 and then raises. It leaves no timer and no listener, so neither the 100 ms
  delay nor \<^verbatim>\<open>loadedmetadata\<close>, 0.3 s later, runs anything: the stored time stays 2,
  not 5.3, the native element has received no call, no \<^verbatim>\<open>play()\<close> is in flight, and
  the channel stays paused.
\<close>

theorem facade_opus_never_seeks:
  "(case handleRMC (Num 0) (Num 5) 1000000 playing_opus_pool of
      Ok vp1 \<Rightarrow> False
    | Threw e vp1 \<Rightarrow>
        e = TypeError ''music.addEventListener is not a function'' \<and>
        timers vp1 = [] \<and> plays vp1 = [] \<and>
        fire_timer 1000300 vp1 = None \<and>
        fire_loadedmetadata 1000300 0 vp1 = vp1 \<and>
        (case music vp1 ! 0 of
           Facade n p \<Rightarrow>
             n_calls n = [] \<and> n_listeners n = [] \<and> p_paused p \<and> sourceNode p = None \<and>
             p_currentTime p = Num 2
         | _ \<Rightarrow> False))"
  by (simp add: playing_opus_pool_def play_def ready_handle_def fresh_world_def
      new_PolyfillAudioElement_def stop_def playFromOffset_def start_error_def notify_def
      handleRMC_def or_zero_def array_index_def isOpus_def endsWith_def opus_channel_def
      pause_def get_currentTime_def js_sub_def node_stop_disconnect_def fire_timer_def
      fire_loadedmetadata_def Let_def)

text \<open>
  C3 (readiness: \<^verbatim>\<open>loadedmetadata\<close> for a native handle, a 100 ms delay for a handle that
  dispatches to the software variant). A channel element whose source is an Opus file
  is wrapped on a host without native support, which yields the facade. The facade is a
  proxy of the native element and passes \<^verbatim>\<open>instanceof HTMLAudioElement\<close>, so the
  command takes the listener branch; its \<^verbatim>\<open>addEventListener\<close> is routed to the
  software handle, which has none, and the call raises \<^verbatim>\<open>TypeError\<close>. No timer is set
  and no listener is registered: \<^verbatim>\<open>currentTime\<close> is never written and \<^verbatim>\<open>play()\<close> never
  called.
\<close>

theorem facade_opus_command_raises:
  "(case wrapAudioElement True opus_channel fresh_world of
      (m, w) \<Rightarrow>
        m = Facade opus_channel
              (new_PolyfillAudioElement\<lparr>p_volume := Num (1 / 2), gainNode := Some (Num (1 / 2))\<rparr>) \<and>
        handleRMC (Num 0) (Num 5) 0 (pool_of m) =
          Threw (TypeError ''music.addEventListener is not a function'') (pool_of m) \<and>
        timers (pool_of m) = [] \<and> listeners_of m = [] \<and>
        fire_timer 100 (pool_of m) = None \<and>
        fire_loadedmetadata 100 0 (pool_of m) = pool_of m)"
  by (simp add: wrapAudioElement_def set_loop_def set_volume_def Math_max_def Math_min_def
      new_PolyfillAudioElement_def handleRMC_def or_zero_def array_index_def pool_of_def
      isOpus_def endsWith_def opus_channel_def pause_def fire_timer_def
      fire_loadedmetadata_def Let_def)

text \<open>
  C5, as stated, fails: an index that is not a number selects channel 0, and the command
  pauses that channel and registers its listener.
\<close>

theorem invalid_index_selects_channel_0:
  "handleRMC NaN (Num 5) 0 (pool_of (Native native_channel)) =
     Ok (pool_of (Native (native_channel\<lparr>n_listeners := [\<lparr>totime = Num 5, loadStartTime = 0\<rparr>],
                                          n_calls := [NPause]\<rparr>)))
   \<and> handleRMC NaN (Num 5) 0 (pool_of (Native native_channel))
       \<noteq> Ok (pool_of (Native native_channel))"
  by (simp add: handleRMC_def or_zero_def array_index_def pool_of_def native_call_def
      native_channel_def Let_def)

text \<open>
  C5, amended. The channel of a command is its index argument, with channel 0 for an
  argument that is missing, not a number, or zero. A command whose channel has no
  corresponding element in the music pool returns normally and leaves the whole state
  (every channel, the timers, the global state) unchanged.
\<close>

theorem missing_channel_noop:
  assumes "array_index (music vp) (or_zero chanArg) = None"
  shows "handleRMC chanArg offArg nowMs vp = Ok vp"
  using assms by (simp add: handleRMC_def Let_def)

theorem missing_channel_noop_witness:
  "array_index (music (pool_of (Native native_channel))) (or_zero (Num 3)) = None \<and>
   handleRMC (Num 3) (Num 5) 0 (pool_of (Native native_channel)) =
     Ok (pool_of (Native native_channel))"
proof -
  have a: "array_index (music (pool_of (Native native_channel))) (or_zero (Num 3)) = None"
    by (simp add: array_index_def or_zero_def pool_of_def)
  from a missing_channel_noop [OF a] show ?thesis by simp
qed

end
